theory Spec2Isabelle
  imports Complex_Main "HOL-Library.Char_ord" "HOL-Library.List_Lexorder"
begin

text \<open>
  The booking routes (create, cancel) and the tutor search route of the tutoring marketplace,
  as functions on a store of students, tutors and bookings.  A handler returns the store
  after the request and its response; an error response is the pair of HTTP status and
  message the route sends.  Numbers are exact (reals and integers), strings are lists of
  characters, a \<open>Date\<close> is its count of milliseconds.
\<close>

section \<open>Wall-clock time strings\<close>

text \<open>
  The booking routes carry start and end times as strings.  The create route checks them with
  \<^verbatim>\<open>/^([0-1]?[0-9]|2[0-3]):[0-5][0-9]$/\<close>; the store compares them as
      strings
  (\<open>$lt\<close>, \<open>$lte\<close>, \<open>$gt\<close>, \<open>$gte\<close> on string
      fields), which is the lexicographic order on
  character codes: the order \<open><\<close> of \<^typ>\<open>string\<close> below.
\<close>

definition isDigit :: "char \<Rightarrow> bool" where
  "isDigit c = (CHR ''0'' \<le> c \<and> c \<le> CHR ''9'')"

definition digitVal :: "char \<Rightarrow> nat" where
  "digitVal c = of_char c - 48"

text \<open>The regular expression of the validators, alternative by alternative.\<close>

fun matchesTimeFormat :: "string \<Rightarrow> bool" where
  "matchesTimeFormat [h, c, m1, m2] =
     (isDigit h \<and> c = CHR '':'' \<and> CHR ''0'' \<le> m1 \<and> m1 \<le> CHR ''5'' \<and>
         isDigit m2)"
| "matchesTimeFormat [h1, h2, c, m1, m2] =
     (((CHR ''0'' \<le> h1 \<and> h1 \<le> CHR ''1'' \<and> isDigit h2) \<or>
       (h1 = CHR ''2'' \<and> CHR ''0'' \<le> h2 \<and> h2 \<le> CHR ''3'')) \<and>
      c = CHR '':'' \<and> CHR ''0'' \<le> m1 \<and> m1 \<le> CHR ''5'' \<and> isDigit m2)"
| "matchesTimeFormat _ = False"

text \<open>
  The minute of the day a time string denotes (hours before the colon, minutes after).
\<close>

fun minuteOfDay :: "string \<Rightarrow> nat" where
  "minuteOfDay [h, c, m1, m2] = digitVal h * 60 + digitVal m1 * 10 + digitVal m2"
| "minuteOfDay [h1, h2, c, m1, m2] =
     (digitVal h1 * 10 + digitVal h2) * 60 + digitVal m1 * 10 + digitVal m2"
| "minuteOfDay _ = 0"

section \<open>Bookings\<close>

record pricingSnapshot =
  baseAmount :: real
  tax :: real
  totalAmount :: real

record cancellationRecord =
  reason :: string
  cancelledBy :: string
  cancelledAt :: int
  refundEligible :: bool
  refundAmount :: real

text \<open>
  A stored booking document.  \<open>scheduledDate\<close> is the stored \<open>Date\<close>
      (milliseconds since the
  epoch), the times are the strings of the request.
\<close>

record booking =
  booking_id :: nat
  student :: string
  tutor :: string
  sessionType :: string
  subject :: string
  className :: string
  board :: string
  scheduledDate :: int
  startTime :: string
  endTime :: string
  duration :: int
  mode :: string
  topics :: "string list"
  pricing :: pricingSnapshot
  status :: string
  cancellation :: "cancellationRecord option"

definition activeStatuses :: "string list" where
  "activeStatuses = [''scheduled'', ''confirmed'', ''in_progress'']"

text \<open>
  The filter of \<open>Booking.findOne\<close> in the create route: tutor, date, the
      three-clause \<open>$or\<close> on
  the times, and the status list.
\<close>

definition conflictQuery :: "string \<Rightarrow> int \<Rightarrow> string \<Rightarrow> string
    \<Rightarrow> booking \<Rightarrow> bool" where
  "conflictQuery tid sessionDate st en b =
     (tutor b = tid \<and> scheduledDate b = sessionDate \<and>
      ((startTime b \<le> st \<and> endTime b > st) \<or>
       (startTime b < en \<and> endTime b \<ge> en) \<or>
       (startTime b \<ge> st \<and> endTime b \<le> en)) \<and>
      status b \<in> set activeStatuses)"

section \<open>Collections and requests\<close>

record subjectOffering =
  name :: string
  classes :: "string list"
  boards :: "string list"
  pricePerHour :: real

text \<open>
  A tutor document.  \<open>coordinates\<close> is the GeoJSON point of the tutor's user
      (longitude,
  latitude); \<open>isAvailable\<close> is the tutor's own calendar method, whose code is the
      availability
  calendar's; \<open>distance\<close> is the field the search pipeline adds.
\<close>

record tutorDoc =
  tutor_id :: string
  tutorUser :: string
  isAvailableForBooking :: bool
  verificationStatus :: string
  subjects :: "subjectOffering list"
  teachingModes :: "string list"
  ratingAverage :: real
  bio :: string
  totalYears :: real
  coordinates :: "real \<times> real"
  isAvailable :: "int \<Rightarrow> string \<Rightarrow> string \<Rightarrow> bool"
  distance :: "real option"

record studentDoc =
  student_id :: string
  studentUser :: string

record store =
  students :: "studentDoc list"
  tutors :: "tutorDoc list"
  bookings :: "booking list"

record user =
  user_id :: string
  role :: string

text \<open>
  The body of a create request.  \<open>req_scheduledDate\<close> is the body's date string as
  \<open>isISO8601\<close> and \<open>new Date\<close> read it: \<open>None\<close> when the
      validator rejects it, the
  \<open>Date\<close>'s milliseconds otherwise.
\<close>

record bookingRequest =
  req_tutorId :: string
  req_sessionType :: string
  req_subject :: string
  req_class :: string
  req_board :: string
  req_scheduledDate :: "int option"
  req_startTime :: string
  req_endTime :: string
  req_duration :: int
  req_mode :: string
  req_topics :: "string list option"

type_synonym httpError = "nat \<times> string"

subsection \<open>Validators and string helpers\<close>

definition isHexDigit :: "char \<Rightarrow> bool" where
  "isHexDigit c = (isDigit c \<or> (CHR ''a'' \<le> c \<and> c \<le> CHR ''f'') \<or> (CHR ''A''
      \<le> c \<and> c \<le> CHR ''F''))"

definition isMongoId :: "string \<Rightarrow> bool" where
  "isMongoId s = (length s = 24 \<and> list_all isHexDigit s)"

definition lowerChar :: "char \<Rightarrow> char" where
  "lowerChar c = (if CHR ''A'' \<le> c \<and> c \<le> CHR ''Z'' then char_of (of_char c +
      (32::nat)) else c)"

definition toLowerCase :: "string \<Rightarrow> string" where
  "toLowerCase s = map lowerChar s"

text \<open>The class names the create route admits, in the order of its list.\<close>

definition classNames :: "string list" where
  "classNames =
     [''LKG'', ''UKG''] @ [''1'', ''2'', ''3'', ''4'', ''5''] @ [''6'', ''7'', ''8'', ''9''] @
     [''10'', ''11'', ''12'']"

definition validCreate :: "bookingRequest \<Rightarrow> bool" where
  "validCreate r =
     (isMongoId (req_tutorId r) \<and>
      req_sessionType r \<in> set [''demo'', ''regular'', ''assessment'', ''group''] \<and>
      req_subject r \<noteq> [] \<and>
      req_class r \<in> set classNames \<and>
      req_board r \<in> set [''CBSE'', ''ICSE'', ''State Board'', ''IB'', ''IGCSE'', ''NIOS'']
          \<and>
      req_scheduledDate r \<noteq> None \<and>
      matchesTimeFormat (req_startTime r) \<and>
      matchesTimeFormat (req_endTime r) \<and>
      30 \<le> req_duration r \<and> req_duration r \<le> 180 \<and>
      req_mode r \<in> set [''online'', ''offline''])"

subsection \<open>Creating a booking\<close>

definition freshId :: "booking list \<Rightarrow> nat" where
  "freshId bs = Suc (fold max (map booking_id bs) 0)"

definition teaches :: "bookingRequest \<Rightarrow> subjectOffering \<Rightarrow> bool" where
  "teaches r s =
     (toLowerCase (name s) = toLowerCase (req_subject r) \<and>
      req_class r \<in> set (classes s) \<and> req_board r \<in> set (boards s))"

text \<open>The pricing block of the create route.\<close>

definition computePrice :: "real \<Rightarrow> int \<Rightarrow> pricingSnapshot" where
  "computePrice hourlyRate durationMinutes =
     (let base = hourlyRate * (real_of_int durationMinutes / 60);
          tx = base * 0.18;
          total = base + tx
      in \<lparr>baseAmount = base, tax = tx, totalAmount = total\<rparr>)"

text \<open>
  Modelled from the spec: the Booking schema is not among the sources; a new document's status
  is the initial state \<open>scheduled\<close> and it has no cancellation record.
\<close>

definition newBooking :: "nat \<Rightarrow> string \<Rightarrow> bookingRequest \<Rightarrow>
    int \<Rightarrow> pricingSnapshot \<Rightarrow> booking" where
  "newBooking i sid r sessionDate p =
     \<lparr>booking_id = i, student = sid, tutor = req_tutorId r, sessionType = req_sessionType
         r,
      subject = req_subject r, className = req_class r, board = req_board r,
      scheduledDate = sessionDate, startTime = req_startTime r, endTime = req_endTime r,
      duration = req_duration r, mode = req_mode r,
      topics = (case req_topics r of None \<Rightarrow> [] | Some ts \<Rightarrow> ts),
      pricing = p, status = ''scheduled'', cancellation = None\<rparr>"

text \<open>
  The handler of \<open>POST /api/bookings\<close>, check by check in the order of the source.
      It returns
  the store after the request and the response: an HTTP error (status, message) or the saved
  booking.  The notifications after \<open>save\<close> are caught and do not change the outcome.
\<close>

definition createBooking :: "store \<Rightarrow> user \<Rightarrow> bookingRequest \<Rightarrow>
    store \<times> (httpError + booking)" where
  "createBooking db u r =
     (if \<not> validCreate r then (db, Inl (400, ''Validation failed''))
      else case find (\<lambda>s. studentUser s = user_id u) (students db) of
        None \<Rightarrow> (db, Inl (404, ''Student profile not found''))
      | Some stu \<Rightarrow>
       (case find (\<lambda>t. tutor_id t = req_tutorId r) (tutors db) of
          None \<Rightarrow> (db, Inl (404, ''Tutor not found''))
        | Some t \<Rightarrow>
          if \<not> isAvailableForBooking t
          then (db, Inl (400, ''Tutor is not available for booking''))
          else (case find (teaches r) (subjects t) of
            None \<Rightarrow> (db, Inl (400,
                ''Tutor does not teach this subject for the specified class and board''))
          | Some tutorSubject \<Rightarrow>
             (case req_scheduledDate r of
                None \<Rightarrow> (db, Inl (400, ''Validation failed''))
              | Some sessionDate \<Rightarrow>
                if \<not> isAvailable t sessionDate (req_startTime r) (req_endTime r)
                then (db, Inl (400, ''Tutor is not available at the requested time''))
                else (case find (conflictQuery (req_tutorId r) sessionDate
                                   (req_startTime r) (req_endTime r)) (bookings db) of
                  Some conflictingBooking \<Rightarrow> (db, Inl (400,
                      ''Time slot is already booked''))
                | None \<Rightarrow>
                   (let b = newBooking (freshId (bookings db)) (student_id stu) r sessionDate
                              (computePrice (pricePerHour tutorSubject) (req_duration r))
                    in (db\<lparr>bookings := bookings db @ [b]\<rparr>, Inr b)))))))"

subsection \<open>Cancelling a booking\<close>









section \<open>Distance\<close>





section \<open>Tutor search\<close>

text \<open>
  The query string of \<open>GET /api/tutors\<close> after the validators, numbers read as
      numbers;
  \<open>None\<close> is an absent parameter.
\<close>

record searchQuery =
  q_search :: "string option"
  q_subject :: "string option"
  q_class :: "string option"
  q_board :: "string option"
  q_teachingMode :: "string option"
  q_minRating :: "real option"
  q_maxPrice :: "real option"
  q_latitude :: "real option"
  q_longitude :: "real option"
  q_radius :: "real option"
  q_page :: "int option"
  q_limit :: "int option"
  q_sortBy :: "string option"

record pagination =
  currentPage :: int
  totalPages :: int
  totalTutors :: nat
  hasNext :: bool
  hasPrev :: bool

record searchResponse =
  res_tutors :: "tutorDoc list"
  res_pagination :: pagination

definition orDefault :: "'a option \<Rightarrow> 'a \<Rightarrow> 'a" where
  "orDefault v d = (case v of None \<Rightarrow> d | Some x \<Rightarrow> x)"

text \<open>A string parameter takes part in the query when it is present and not empty.\<close>

definition whenTruthy :: "string option \<Rightarrow> (string \<Rightarrow> bool) \<Rightarrow>
    bool" where
  "whenTruthy v P = (case v of None \<Rightarrow> True | Some s \<Rightarrow> (if s = [] then
      True else P s))"

definition whenGiven :: "'a option \<Rightarrow> ('a \<Rightarrow> bool) \<Rightarrow> bool" where
  "whenGiven v P = (case v of None \<Rightarrow> True | Some x \<Rightarrow> P x)"

definition validSearch :: "searchQuery \<Rightarrow> bool" where
  "validSearch q =
     (whenGiven (q_teachingMode q) (\<lambda>m. m \<in> set [''online'', ''offline'', ''both''])
         \<and>
      whenGiven (q_minRating q) (\<lambda>r. 0 \<le> r \<and> r \<le> 5) \<and>
      whenGiven (q_maxPrice q) (\<lambda>p. 0 \<le> p) \<and>
      whenGiven (q_radius q) (\<lambda>r. 1 \<le> r \<and> r \<le> 50) \<and>
      whenGiven (q_page q) (\<lambda>p. 1 \<le> p) \<and>
      whenGiven (q_limit q) (\<lambda>l. 1 \<le> l \<and> l \<le> 50))"

text \<open>
  The filter object the route builds, as the store reads it on one tutor document.  A condition
  on a field of the \<open>subjects\<close> array holds when some element satisfies it, each
      condition on
  its own.  \<open>rx p s\<close> is the test of the case-insensitive regular expression built
      from \<open>p\<close>
  on the string \<open>s\<close>; the expression engine is not part of the route.
\<close>

definition matchesQuery :: "(string \<Rightarrow> string \<Rightarrow> bool) \<Rightarrow>
    searchQuery \<Rightarrow> tutorDoc \<Rightarrow> bool" where
  "matchesQuery rx q t =
     (isAvailableForBooking t \<and>
      verificationStatus t = ''verified'' \<and>
      whenTruthy (q_search q) (\<lambda>p. list_ex (\<lambda>s. rx p (name s)) (subjects t)
          \<or> rx p (bio t)) \<and>
      whenTruthy (q_subject q) (\<lambda>p. list_ex (\<lambda>s. rx p (name s)) (subjects t))
          \<and>
      whenTruthy (q_class q) (\<lambda>c. list_ex (\<lambda>s. c \<in> set (classes s))
          (subjects t)) \<and>
      whenTruthy (q_board q) (\<lambda>b. list_ex (\<lambda>s. b \<in> set (boards s)) (subjects
          t)) \<and>
      whenTruthy (q_teachingMode q) (\<lambda>m. m \<in> set (teachingModes t)) \<and>
      whenGiven (q_minRating q) (\<lambda>r. r \<le> ratingAverage t) \<and>
      whenGiven (q_maxPrice q) (\<lambda>p. list_ex (\<lambda>s. pricePerHour s \<le> p)
          (subjects t)))"

text \<open>
  The \<open>$addFields\<close> stage: the planar approximation of the distance in kilometres.
\<close>

definition addDistance :: "real \<Rightarrow> real \<Rightarrow> tutorDoc \<Rightarrow>
    tutorDoc" where
  "addDistance lat lng t =
     t\<lparr>distance := Some
         (sqrt (((snd (coordinates t) - lat) * 111.32) ^ 2 +
                ((fst (coordinates t) - lng) * (111.32 * cos (lat * (pi / 180)))) ^ 2) /
                    1)\<rparr>"

text \<open>
  The documents the store returns: the aggregation when both coordinates are given, the plain
  \<open>find\<close> otherwise.  \<open>coll\<close> is the tutor collection in the order the
      store yields it;
  \<open>near lng lat m\<close> is the store's own \<open>$near\<close> test with
      \<open>$maxDistance\<close> \<open>m\<close> metres.
\<close>

definition findTutors ::
  "(string \<Rightarrow> string \<Rightarrow> bool) \<Rightarrow> (real \<Rightarrow> real
      \<Rightarrow> real \<Rightarrow> tutorDoc \<Rightarrow> bool) \<Rightarrow>
   tutorDoc list \<Rightarrow> searchQuery \<Rightarrow> tutorDoc list" where
  "findTutors rx near coll q =
     (case (q_latitude q, q_longitude q) of
        (Some lat, Some lng) \<Rightarrow>
          (let radiusInMeters = orDefault (q_radius q) 5 * 1000
           in map (addDistance lat lng)
                (filter (\<lambda>t. matchesQuery rx q t \<and> near lng lat radiusInMeters t)
                    coll))
      | _ \<Rightarrow> filter (matchesQuery rx q) coll)"

subsection \<open>Sorting\<close>

text \<open>
  \<open>Array.prototype.sort\<close> with a comparator: a stable sort, \<open>a\<close> before
      \<open>b\<close> when the comparator
  is negative.  Only the sign of the comparator matters.
\<close>

fun insertBy :: "('a \<Rightarrow> 'a \<Rightarrow> real) \<Rightarrow> 'a \<Rightarrow> 'a list
    \<Rightarrow> 'a list" where
  "insertBy cmp x [] = [x]"
| "insertBy cmp x (y # ys) = (if cmp x y \<le> 0 then x # y # ys else y # insertBy cmp x ys)"

definition jsSort :: "('a \<Rightarrow> 'a \<Rightarrow> real) \<Rightarrow> 'a list
    \<Rightarrow> 'a list" where
  "jsSort cmp xs = foldr (insertBy cmp) xs []"

text \<open>
  \<open>Math.min(...xs)\<close> and \<open>Math.max(...xs)\<close>; \<open>None\<close> is the
      infinity they return on no arguments.
\<close>

fun mathMin :: "real list \<Rightarrow> real option" where
  "mathMin [] = None"
| "mathMin (x # xs) = Some (fold min xs x)"

fun mathMax :: "real list \<Rightarrow> real option" where
  "mathMax [] = None"
| "mathMax (x # xs) = Some (fold max xs x)"

definition byRating :: "tutorDoc \<Rightarrow> tutorDoc \<Rightarrow> real" where
  "byRating a b = ratingAverage b - ratingAverage a"

text \<open>
  \<open>aMinPrice - bMinPrice\<close>: with an infinity on one side the sign is that side's,
      with infinities
  on both sides the difference is not a number and the elements compare equal.
\<close>

definition byPriceLow :: "tutorDoc \<Rightarrow> tutorDoc \<Rightarrow> real" where
  "byPriceLow a b =
     (case (mathMin (map pricePerHour (subjects a)), mathMin (map pricePerHour (subjects b))) of
        (None, None) \<Rightarrow> 0
      | (None, Some y) \<Rightarrow> 1
      | (Some x, None) \<Rightarrow> - 1
      | (Some x, Some y) \<Rightarrow> x - y)"

definition byPriceHigh :: "tutorDoc \<Rightarrow> tutorDoc \<Rightarrow> real" where
  "byPriceHigh a b =
     (case (mathMax (map pricePerHour (subjects a)), mathMax (map pricePerHour (subjects b))) of
        (None, None) \<Rightarrow> 0
      | (None, Some y) \<Rightarrow> 1
      | (Some x, None) \<Rightarrow> - 1
      | (Some x, Some y) \<Rightarrow> y - x)"

definition byDistance :: "tutorDoc \<Rightarrow> tutorDoc \<Rightarrow> real" where
  "byDistance a b = orDefault (distance a) 0 - orDefault (distance b) 0"

definition byExperience :: "tutorDoc \<Rightarrow> tutorDoc \<Rightarrow> real" where
  "byExperience a b = totalYears b - totalYears a"

text \<open>The \<open>switch\<close> on \<open>sortBy\<close>.\<close>

definition sortTutors :: "string \<Rightarrow> bool \<Rightarrow> tutorDoc list \<Rightarrow>
    tutorDoc list" where
  "sortTutors sortBy hasCoordinates ts =
     (if sortBy = ''rating'' then jsSort byRating ts
      else if sortBy = ''price_low'' then jsSort byPriceLow ts
      else if sortBy = ''price_high'' then jsSort byPriceHigh ts
      else if sortBy = ''distance'' then (if hasCoordinates then jsSort byDistance ts else ts)
      else if sortBy = ''experience'' then jsSort byExperience ts
      else jsSort byRating ts)"

subsection \<open>Pagination and the handler\<close>

text \<open>
  \<open>Array.prototype.slice(start, end)\<close> on integers; a negative index counts from the
  end.
\<close>

definition jsSlice :: "'a list \<Rightarrow> int \<Rightarrow> int \<Rightarrow> 'a list" where
  "jsSlice xs startIdx endIdx =
     (let len = int (length xs);
          k = (if startIdx < 0 then max (len + startIdx) 0 else min startIdx len);
          fin = (if endIdx < 0 then max (len + endIdx) 0 else min endIdx len)
      in take (nat (fin - k)) (drop (nat k) xs))"

definition getTutors ::
  "(string \<Rightarrow> string \<Rightarrow> bool) \<Rightarrow> (real \<Rightarrow> real
      \<Rightarrow> real \<Rightarrow> tutorDoc \<Rightarrow> bool) \<Rightarrow>
   tutorDoc list \<Rightarrow> searchQuery \<Rightarrow> httpError + searchResponse" where
  "getTutors rx near coll q =
     (if \<not> validSearch q then Inl (400, ''Validation failed'')
      else
       (let page = orDefault (q_page q) 1;
            limit = orDefault (q_limit q) 10;
            sortBy = orDefault (q_sortBy q) ''rating'';
            tutors = sortTutors sortBy (q_latitude q \<noteq> None \<and> q_longitude q \<noteq>
                None)
                       (findTutors rx near coll q);
            startIndex = (page - 1) * limit;
            endIndex = page * limit
        in Inr \<lparr>res_tutors = jsSlice tutors startIndex endIndex,
                res_pagination =
                  \<lparr>currentPage = page,
                   totalPages = \<lceil>real (length tutors) / real_of_int limit\<rceil>,
                   totalTutors = length tutors,
                   hasNext = (endIndex < int (length tutors)),
                   hasPrev = (startIndex > 0)\<rparr>\<rparr>))"

section \<open>The spec's readings\<close>

text \<open>
  Two booked slots collide when they belong to the same tutor and stored date, both have an
  active status, and each starts before the other ends.  The times are compared as the
  conflict query compares them.
\<close>

definition slotsOverlap :: "booking \<Rightarrow> booking \<Rightarrow> bool" where
  "slotsOverlap a b =
     (tutor a = tutor b \<and> scheduledDate a = scheduledDate b \<and>
      status a \<in> set activeStatuses \<and> status b \<in> set activeStatuses \<and>
      startTime a < endTime b \<and> startTime b < endTime a)"

text \<open>
  The price test in the spec's words: the minimum price among the tutor's subject offerings
  that match the subject, class and board filters of the request.
\<close>

definition specOfferingMatches ::
  "(string \<Rightarrow> string \<Rightarrow> bool) \<Rightarrow> searchQuery \<Rightarrow>
      subjectOffering \<Rightarrow> bool" where
  "specOfferingMatches rx q s =
     (whenTruthy (q_subject q) (\<lambda>p. rx p (name s)) \<and>
      whenTruthy (q_class q) (\<lambda>c. c \<in> set (classes s)) \<and>
      whenTruthy (q_board q) (\<lambda>b. b \<in> set (boards s)))"

definition specMinMatchingPrice ::
  "(string \<Rightarrow> string \<Rightarrow> bool) \<Rightarrow> searchQuery \<Rightarrow>
      tutorDoc \<Rightarrow> real option" where
  "specMinMatchingPrice rx q t =
     mathMin (map pricePerHour (filter (specOfferingMatches rx q) (subjects t)))"

section \<open>Sample data\<close>

text \<open>
  For a pattern without metacharacters the case-insensitive regular expression test is a
  case-insensitive substring test.
\<close>

fun startsWith :: "string \<Rightarrow> string \<Rightarrow> bool" where
  "startsWith s [] = True"
| "startsWith [] (p # ps) = False"
| "startsWith (c # cs) (p # ps) = (c = p \<and> startsWith cs ps)"

fun includesStr :: "string \<Rightarrow> string \<Rightarrow> bool" where
  "includesStr [] p = (p = [])"
| "includesStr (c # cs) p = (startsWith (c # cs) p \<or> includesStr cs p)"

definition literalRegexI :: "string \<Rightarrow> string \<Rightarrow> bool" where
  "literalRegexI p s = includesStr (toLowerCase s) (toLowerCase p)"

text \<open>
  Two stores' \<open>$near\<close> tests: one admits every document, one only the query point.
\<close>

definition storeAdmitsAll :: "real \<Rightarrow> real \<Rightarrow> real \<Rightarrow> tutorDoc
    \<Rightarrow> bool" where
  "storeAdmitsAll lng lat m t = True"


definition sampleTutorId :: string where
  "sampleTutorId = ''aaaaaaaaaaaaaaaaaaaaaaaa''"

definition alwaysOpen :: "int \<Rightarrow> string \<Rightarrow> string \<Rightarrow> bool" where
  "alwaysOpen d s e = True"

text \<open>A tutor teaching Math for classes 8 to 10 under CBSE at 600 per hour.\<close>

definition sampleTutor :: tutorDoc where
  "sampleTutor =
     \<lparr>tutor_id = sampleTutorId, tutorUser = ''u2'', isAvailableForBooking = True,
      verificationStatus = ''verified'',
      subjects = [\<lparr>name = ''Math'', classes = [''8'', ''9'', ''10''], boards = [''CBSE''],
                   pricePerHour = 600\<rparr>],
      teachingModes = [''online''], ratingAverage = 4, bio = [], totalYears = 3,
      coordinates = (0, 0), isAvailable = alwaysOpen, distance = None\<rparr>"

definition sampleStore :: store where
  "sampleStore =
     \<lparr>students = [\<lparr>student_id = ''s1'', studentUser = ''u1''\<rparr>], tutors =
         [sampleTutor],
      bookings = []\<rparr>"

definition sampleStudent :: user where
  "sampleStudent = \<lparr>user_id = ''u1'', role = ''student''\<rparr>"

definition sampleRequest :: "string \<Rightarrow> string \<Rightarrow> int \<Rightarrow>
    bookingRequest" where
  "sampleRequest st en d =
     \<lparr>req_tutorId = sampleTutorId, req_sessionType = ''regular'', req_subject = ''Math'',
      req_class = ''10'', req_board = ''CBSE'', req_scheduledDate = Some 0,
      req_startTime = st, req_endTime = en, req_duration = d, req_mode = ''online'',
      req_topics = None\<rparr>"

definition sampleBooking :: "string \<Rightarrow> string \<Rightarrow> booking" where
  "sampleBooking st en = newBooking 1 ''s1'' (sampleRequest st en 60) 0 (computePrice 600 60)"

text \<open>
  What the calendar sees of a booking: tutor, date, the minutes of start and end, status.
\<close>

definition slotOf :: "booking \<Rightarrow> string \<times> int \<times> nat \<times> nat
    \<times> string" where
  "slotOf b =
     (tutor b, scheduledDate b, minuteOfDay (startTime b), minuteOfDay (endTime b), status b)"


text \<open>
  Tutors that differ from the sample tutor in a field or two, and search queries.
\<close>

definition tutorA :: tutorDoc where
  "tutorA = sampleTutor\<lparr>tutor_id := ''A''\<rparr>"

definition tutorB :: tutorDoc where
  "tutorB = sampleTutor\<lparr>tutor_id := ''B''\<rparr>"

definition tutorLow :: tutorDoc where
  "tutorLow = sampleTutor\<lparr>tutor_id := ''L'', ratingAverage := 3\<rparr>"

definition tutorHigh :: tutorDoc where
  "tutorHigh = sampleTutor\<lparr>tutor_id := ''H'', ratingAverage := 5\<rparr>"


definition twoSubjectTutor :: tutorDoc where
  "twoSubjectTutor = sampleTutor\<lparr>subjects :=
     [\<lparr>name = ''Math'', classes = [''10''], boards = [''CBSE''], pricePerHour =
         1000\<rparr>,
      \<lparr>name = ''Physics'', classes = [''9''], boards = [''ICSE''], pricePerHour =
          300\<rparr>]\<rparr>"

definition emptyQuery :: searchQuery where
  "emptyQuery =
     \<lparr>q_search = None, q_subject = None, q_class = None, q_board = None,
      q_teachingMode = None, q_minRating = None, q_maxPrice = None, q_latitude = None,
      q_longitude = None, q_radius = None, q_page = None, q_limit = None, q_sortBy = None\<rparr>"

definition priceQuery :: searchQuery where
  "priceQuery = emptyQuery\<lparr>q_subject := Some ''Math'', q_maxPrice := Some 500\<rparr>"


definition pageQuery :: searchQuery where
  "pageQuery = emptyQuery\<lparr>q_page := Some 2, q_limit := Some 1\<rparr>"

definition resultIds :: "httpError + searchResponse \<Rightarrow> string list" where
  "resultIds r = (case r of Inl e \<Rightarrow> [] | Inr resp \<Rightarrow> map tutor_id
      (res_tutors resp))"

section \<open>Time strings and the conflict check\<close>

text \<open>
  For strings of the two-digit form the order of the strings is the order of the times; the
  lemmas below lead to \<open>padded_times_order\<close>.
\<close>

lemma digit_facts:
  assumes "isDigit c" and "isDigit d"
  shows "(c < d) = (digitVal c < digitVal d)" and "(c = d) = (digitVal c = digitVal d)"
    and "digitVal c \<le> 9"
proof -
  have z: "of_char (CHR ''0'') = (48::nat)" "of_char (CHR ''9'') = (57::nat)" by simp_all
  have c: "48 \<le> (of_char c :: nat)" "(of_char c :: nat) \<le> 57"
    using assms(1) z unfolding isDigit_def less_eq_char_def by simp_all
  have d: "48 \<le> (of_char d :: nat)" "(of_char d :: nat) \<le> 57"
    using assms(2) z unfolding isDigit_def less_eq_char_def by simp_all
  show "(c < d) = (digitVal c < digitVal d)"
    unfolding less_char_def digitVal_def using c d by auto
  have e: "(c = d) = ((of_char c :: nat) = of_char d)" by simp
  have f: "(digitVal c = digitVal d) = ((of_char c :: nat) = of_char d)"
    unfolding digitVal_def using c d by linarith
  from e f show "(c = d) = (digitVal c = digitVal d)" by blast
  show "digitVal c \<le> 9" unfolding digitVal_def using c by auto
qed

lemma digit_upto5:
  assumes "CHR ''0'' \<le> c" and "c \<le> CHR ''5''"
  shows "isDigit c" and "digitVal c \<le> 5"
proof -
  have z: "of_char (CHR ''0'') = (48::nat)" "of_char (CHR ''5'') = (53::nat)" "of_char (CHR
      ''9'') = (57::nat)" by simp_all
  have c: "48 \<le> (of_char c :: nat)" "(of_char c :: nat) \<le> 53"
    using assms z unfolding less_eq_char_def by simp_all
  show "isDigit c" unfolding isDigit_def less_eq_char_def using c z by simp
  show "digitVal c \<le> 5" unfolding digitVal_def using c by auto
qed

lemma hour_digits:
  assumes "(CHR ''0'' \<le> h1 \<and> h1 \<le> CHR ''1'' \<and> isDigit h2) \<or>
           (h1 = CHR ''2'' \<and> CHR ''0'' \<le> h2 \<and> h2 \<le> CHR ''3'')"
  shows "isDigit h1 \<and> isDigit h2"
proof -
  have z: "of_char (CHR ''0'') = (48::nat)" "of_char (CHR ''1'') = (49::nat)"
    "of_char (CHR ''2'') = (50::nat)" "of_char (CHR ''3'') = (51::nat)"
    "of_char (CHR ''9'') = (57::nat)" by simp_all
  from assms show ?thesis
    unfolding isDigit_def less_eq_char_def z by auto
qed

lemma padded_shape:
  assumes "matchesTimeFormat s" and "length s = 5"
  shows "\<exists>a1 a2 a3 a4. s = [a1, a2, CHR '':'', a3, a4] \<and> isDigit a1 \<and> isDigit
      a2 \<and>
           CHR ''0'' \<le> a3 \<and> a3 \<le> CHR ''5'' \<and> isDigit a4"
  using assms
  by (cases s rule: matchesTimeFormat.cases) (use hour_digits in \<open>simp_all, blast\<close>)

lemma lex4:
  fixes a1 a2 a3 a4 b1 b2 b3 b4 :: nat
  assumes "a2 \<le> 9" "b2 \<le> 9" "a3 \<le> 5" "b3 \<le> 5" "a4 \<le> 9" "b4 \<le> 9"
  shows "(a1 < b1 \<or> a1 = b1 \<and> (a2 < b2 \<or> a2 = b2 \<and> (a3 < b3 \<or> a3 = b3
      \<and> a4 < b4))) =
         ((a1 * 10 + a2) * 60 + a3 * 10 + a4 < (b1 * 10 + b2) * 60 + b3 * 10 + b4)"
  using assms by auto

lemma padded_times_order:
  assumes "matchesTimeFormat s" and "matchesTimeFormat t" and "length s = 5" and "length t = 5"
  shows "(s < t) = (minuteOfDay s < minuteOfDay t)"
proof -
  from padded_shape [OF assms(1,3)] obtain a1 a2 a3 a4 where s: "s = [a1, a2, CHR '':'', a3, a4]"
    and sd: "isDigit a1" "isDigit a2" "CHR ''0'' \<le> a3" "a3 \<le> CHR ''5''" "isDigit a4"
    by blast
  from padded_shape [OF assms(2,4)] obtain b1 b2 b3 b4 where t: "t = [b1, b2, CHR '':'', b3, b4]"
    and td: "isDigit b1" "isDigit b2" "CHR ''0'' \<le> b3" "b3 \<le> CHR ''5''" "isDigit b4"
    by blast
  note s3 = digit_upto5 [OF sd(3,4)] and t3 = digit_upto5 [OF td(3,4)]
  have "(s < t) = (a1 < b1 \<or> a1 = b1 \<and> (a2 < b2 \<or> a2 = b2 \<and> (a3 < b3 \<or> a3
      = b3 \<and> a4 < b4)))"
    unfolding s t by simp
  also have "\<dots> = (digitVal a1 < digitVal b1 \<or> digitVal a1 = digitVal b1 \<and>
       (digitVal a2 < digitVal b2 \<or> digitVal a2 = digitVal b2 \<and>
        (digitVal a3 < digitVal b3 \<or> digitVal a3 = digitVal b3 \<and> digitVal a4 < digitVal
            b4)))"
    by (simp only: digit_facts(1,2) [OF sd(1) td(1)] digit_facts(1,2) [OF sd(2) td(2)]
          digit_facts(1,2) [OF s3(1) t3(1)] digit_facts(1,2) [OF sd(5) td(5)])
  also have "\<dots> = (minuteOfDay s < minuteOfDay t)"
    unfolding s t minuteOfDay.simps
    by (rule lex4) (simp_all add: digit_facts(3) [OF sd(2) sd(2)] digit_facts(3) [OF td(2) td(2)]
          digit_facts(3) [OF sd(5) sd(5)] digit_facts(3) [OF td(5) td(5)] s3(2) t3(2))
  finally show ?thesis .
qed

text \<open>
  C10.  The validators also accept an hour of one digit, and then the order of the strings is
  not the order of the times: 9:00 is before 10:00 in the day and after it as a string.
\<close>

theorem string_order_not_chronological:
  "matchesTimeFormat ''9:00'' \<and> matchesTimeFormat ''10:00'' \<and>
   minuteOfDay ''9:00'' < minuteOfDay ''10:00'' \<and> \<not> ''9:00'' < ''10:00''"
  by (simp add: isDigit_def digitVal_def)

text \<open>
  C2 (as amended).  For a candidate slot and a stored booking that are both non-empty in the
  order the query compares them in (start before end, as strings), the conflict query selects
  the booking exactly when it belongs to the same tutor on the same stored date, its status is
  one of scheduled, confirmed, in_progress, and the intervals overlap: the booking starts
  before the candidate ends and the candidate starts before the booking ends.  Without the
  two non-emptiness conditions the three clauses of the query are not equivalent to the
  overlap condition.
\<close>

theorem conflictQuery_iff_overlap:
  assumes "st < en" and "startTime b < endTime b"
  shows "conflictQuery tid d st en b \<longleftrightarrow>
           (tutor b = tid \<and> scheduledDate b = d \<and> status b \<in> set activeStatuses
               \<and>
            startTime b < en \<and> st < endTime b)"
  using assms unfolding conflictQuery_def by auto

theorem conflictQuery_iff_overlap_witness:
  "''10:30'' < ''11:30'' \<and>
   startTime (sampleBooking ''10:00'' ''11:00'') < endTime (sampleBooking ''10:00'' ''11:00'')
       \<and>
   conflictQuery sampleTutorId 0 ''10:30'' ''11:30'' (sampleBooking ''10:00'' ''11:00'')"
  using conflictQuery_iff_overlap
          [of "''10:30''" "''11:30''" "sampleBooking ''10:00'' ''11:00''" sampleTutorId 0]
  by (simp add: sampleBooking_def newBooking_def sampleRequest_def activeStatuses_def)

text \<open>
  A candidate whose end is before its start (the validators do not compare the two) is
  reported as conflicting with a booking it does not overlap.
\<close>

theorem conflictQuery_reversed_counterexample:
  "conflictQuery sampleTutorId 0 ''11:00'' ''10:00'' (sampleBooking ''10:30'' ''12:00'') \<and>
   \<not> (startTime (sampleBooking ''10:30'' ''12:00'') < ''10:00'' \<and>
      ''11:00'' < endTime (sampleBooking ''10:30'' ''12:00''))"
  by (simp add: conflictQuery_def sampleBooking_def newBooking_def sampleRequest_def
        activeStatuses_def)

section \<open>Creating bookings\<close>

text \<open>
  What a successful and a refused create request say about the request and the store.
\<close>

lemma createBooking_Inr:
  assumes "createBooking db u r = (db', Inr b)"
  shows "\<exists>stu t s d. validCreate r \<and> find (\<lambda>s. studentUser s = user_id u)
      (students db) = Some stu \<and>
     find (\<lambda>t. tutor_id t = req_tutorId r) (tutors db) = Some t \<and>
         isAvailableForBooking t \<and>
     find (teaches r) (subjects t) = Some s \<and> req_scheduledDate r = Some d \<and>
     isAvailable t d (req_startTime r) (req_endTime r) \<and>
     find (conflictQuery (req_tutorId r) d (req_startTime r) (req_endTime r)) (bookings db) =
         None \<and>
     b = newBooking (freshId (bookings db)) (student_id stu) r d (computePrice (pricePerHour s)
         (req_duration r)) \<and>
     db' = db\<lparr>bookings := bookings db @ [b]\<rparr>"
  using assms unfolding createBooking_def
  by (auto split: if_splits option.splits simp: Let_def)

lemma createBooking_Inl:
  assumes "createBooking db u r = (db', Inl e)"
  shows "db' = db"
  using assms unfolding createBooking_def
  by (auto split: if_splits option.splits simp: Let_def)

lemma createBooking_slot:
  assumes "createBooking db u r = (db', Inr b)"
  shows "\<exists>d. find (conflictQuery (req_tutorId r) d (req_startTime r) (req_endTime r))
               (bookings db) = None \<and>
             tutor b = req_tutorId r \<and> scheduledDate b = d \<and>
             startTime b = req_startTime r \<and> endTime b = req_endTime r \<and>
             status b = ''scheduled'' \<and> bookings db' = bookings db @ [b]"
  using createBooking_Inr [OF assms] by (auto simp: newBooking_def)

lemma overlap_is_selected:
  assumes "slotsOverlap a b"
  shows "conflictQuery (tutor b) (scheduledDate b) (startTime b) (endTime b) a"
  using assms unfolding slotsOverlap_def conflictQuery_def by auto

lemma createBooking_keeps_strings_disjoint:
  assumes "sorted_wrt (\<lambda>a b. \<not> slotsOverlap a b) (bookings db)"
  shows "sorted_wrt (\<lambda>a b. \<not> slotsOverlap a b) (bookings (fst (createBooking db u
      r)))"
proof (cases "snd (createBooking db u r)")
  case (Inl e)
  then have "createBooking db u r = (fst (createBooking db u r), Inl e)" by (simp add:
      prod_eq_iff)
  then have "fst (createBooking db u r) = db" by (rule createBooking_Inl)
  with assms show ?thesis by simp
next
  case (Inr b)
  then have c: "createBooking db u r = (fst (createBooking db u r), Inr b)" by (simp add:
      prod_eq_iff)
  from createBooking_slot [OF c] obtain d where
    none: "find (conflictQuery (req_tutorId r) d (req_startTime r) (req_endTime r)) (bookings
        db) = None"
    and q: "tutor b = req_tutorId r" "scheduledDate b = d" "startTime b = req_startTime r"
      "endTime b = req_endTime r"
    and db': "bookings (fst (createBooking db u r)) = bookings db @ [b]"
    by blast
  have "\<not> slotsOverlap a b" if "a \<in> set (bookings db)" for a
  proof
    assume "slotsOverlap a b"
    then have "conflictQuery (req_tutorId r) d (req_startTime r) (req_endTime r) a"
      using overlap_is_selected [of a b] by (simp add: q)
    with that none show False by (simp add: find_None_iff)
  qed
  with assms show ?thesis by (simp add: db' sorted_wrt_append)
qed

text \<open>The create route on the sample store, whatever bookings it holds.\<close>

lemma validCreate_sample:
  "matchesTimeFormat st \<Longrightarrow> matchesTimeFormat en \<Longrightarrow> 30 \<le> d
      \<Longrightarrow> d \<le> 180 \<Longrightarrow>
   validCreate (sampleRequest st en d)"
  by (simp add: validCreate_def sampleRequest_def sampleTutorId_def isMongoId_def
        isHexDigit_def classNames_def)

lemma teaches_sample:
  "find (teaches (sampleRequest st en d)) (subjects sampleTutor) =
     Some \<lparr>name = ''Math'', classes = [''8'', ''9'', ''10''], boards = [''CBSE''],
         pricePerHour = 600\<rparr>"
  by (simp add: teaches_def sampleRequest_def sampleTutor_def)

lemma createBooking_sample:
  assumes "matchesTimeFormat st" and "matchesTimeFormat en" and "30 \<le> d" and "d \<le> 180"
  shows "createBooking (sampleStore\<lparr>bookings := bs\<rparr>) sampleStudent (sampleRequest
      st en d) =
    (case find (conflictQuery sampleTutorId 0 st en) bs of
       Some c \<Rightarrow> (sampleStore\<lparr>bookings := bs\<rparr>, Inl (400,
           ''Time slot is already booked''))
     | None \<Rightarrow> (sampleStore\<lparr>bookings := bs @ [newBooking (freshId bs) ''s1''
         (sampleRequest st en d) 0 (computePrice 600 d)]\<rparr>,
          Inr (newBooking (freshId bs) ''s1'' (sampleRequest st en d) 0 (computePrice 600 d))))"
proof -
  have v: "validCreate (sampleRequest st en d)" using assms by (rule validCreate_sample)
  have t: "find (\<lambda>t. tutor_id t = sampleTutorId) (tutors sampleStore) = Some sampleTutor"
    by (simp add: sampleStore_def sampleTutor_def)
  have s: "find (\<lambda>s. studentUser s = user_id sampleStudent) (students sampleStore) =
      Some \<lparr>student_id = ''s1'', studentUser = ''u1''\<rparr>"
    by (simp add: sampleStore_def sampleStudent_def)
  have a: "isAvailableForBooking sampleTutor" "isAvailable sampleTutor = alwaysOpen"
    by (simp_all add: sampleTutor_def)
  have r: "req_scheduledDate (sampleRequest st en d) = Some 0" "req_tutorId (sampleRequest st en
      d) = sampleTutorId"
    "req_startTime (sampleRequest st en d) = st" "req_endTime (sampleRequest st en d) = en"
    "req_duration (sampleRequest st en d) = d"
    by (simp_all add: sampleRequest_def)
  show ?thesis
    unfolding createBooking_def
    by (cases "find (conflictQuery sampleTutorId 0 st en) bs")
       (simp_all add: v t s a r teaches_sample alwaysOpen_def Let_def)
qed


text \<open>
  C1.  Two requests of the sample student for the same tutor and date, the first from 9:00 to
  9:30 and the second from 09:00 to 09:30, are both saved: the conflict query compares the
  strings and does not select the first booking for the second request.  The store then holds
  two scheduled bookings of one tutor on one date over the same minutes 540 to 570.
\<close>

theorem createBooking_overlap_persisted:
  "map slotOf (bookings (fst (createBooking sampleStore sampleStudent
       (sampleRequest ''9:00'' ''9:30'' 30)))) =
     [(sampleTutorId, 0, 540, 570, ''scheduled'')] \<and>
   map slotOf (bookings (fst (createBooking
       (fst (createBooking sampleStore sampleStudent (sampleRequest ''9:00'' ''9:30'' 30)))
       sampleStudent (sampleRequest ''09:00'' ''09:30'' 30)))) =
     [(sampleTutorId, 0, 540, 570, ''scheduled''), (sampleTutorId, 0, 540, 570, ''scheduled'')]"
  by code_simp



text \<open>
  C9 (as amended).  A create request whose start or end time is not a time of the day in the
  validators' format, or whose duration is below 30 or above 180 minutes, is refused with the
  validation error and the store is left as it was.  The route does not compare the start
  time plus the duration with the end of the day.
\<close>

theorem createBooking_validation:
  assumes "\<not> matchesTimeFormat (req_startTime r) \<or> \<not> matchesTimeFormat
      (req_endTime r) \<or>
           req_duration r < 30 \<or> 180 < req_duration r"
  shows "createBooking db u r = (db, Inl (400, ''Validation failed''))"
  using assms by (auto simp: createBooking_def validCreate_def)

theorem createBooking_validation_witness:
  "\<not> matchesTimeFormat ''24:30'' \<and>
   createBooking sampleStore sampleStudent (sampleRequest ''24:30'' ''23:00'' 60) =
     (sampleStore, Inl (400, ''Validation failed''))"
proof -
  have h: "\<not> matchesTimeFormat ''24:30''" by (simp add: isDigit_def)
  then have "\<not> matchesTimeFormat (req_startTime (sampleRequest ''24:30'' ''23:00'' 60))"
    by (simp add: sampleRequest_def)
  then show ?thesis
    using h createBooking_validation [of "sampleRequest ''24:30'' ''23:00'' 60" sampleStore
        sampleStudent]
    by blast
qed

text \<open>
  A request for 120 minutes from 23:00, which would end an hour after midnight, passes every
  check and is saved.
\<close>

theorem createBooking_past_midnight_counterexample:
  "minuteOfDay ''23:00'' + 120 > 24 * 60 \<and>
   createBooking sampleStore sampleStudent (sampleRequest ''23:00'' ''23:59'' 120) =
     (sampleStore\<lparr>bookings := [newBooking 1 ''s1'' (sampleRequest ''23:00'' ''23:59''
         120) 0 (computePrice 600 120)]\<rparr>,
      Inr (newBooking 1 ''s1'' (sampleRequest ''23:00'' ''23:59'' 120) 0 (computePrice 600 120)))"
  using createBooking_sample [of "''23:00''" "''23:59''" 120 "[]"]
  by (simp add: isDigit_def digitVal_def freshId_def sampleStore_def)

section \<open>Cancelling bookings\<close>







section \<open>Searching tutors\<close>

text \<open>
  The sort keeps length and elements; by rating it is the stable sort by falling rating.
\<close>

lemma length_insertBy: "length (insertBy cmp x ys) = Suc (length ys)"
  by (induction ys) simp_all

lemma set_insertBy: "set (insertBy cmp x ys) = insert x (set ys)"
  by (induction ys) auto

lemma length_jsSort: "length (jsSort cmp xs) = length xs"
  unfolding jsSort_def by (induction xs) (simp_all add: length_insertBy)

lemma set_jsSort: "set (jsSort cmp xs) = set xs"
  unfolding jsSort_def by (induction xs) (simp_all add: set_insertBy)

lemma insertBy_byRating:
  "insertBy byRating x ys = insort_key (\<lambda>t. - ratingAverage t) x ys"
  by (induction ys) (simp_all add: byRating_def)

lemma jsSort_byRating: "jsSort byRating ts = sort_key (\<lambda>t. - ratingAverage t) ts"
  unfolding jsSort_def sort_key_def by (induction ts) (simp_all add: insertBy_byRating)

lemma jsSort_byRating_sorted:
  "sorted_wrt (\<lambda>a b. ratingAverage b \<le> ratingAverage a) (jsSort byRating ts)"
proof -
  have "sorted (map (\<lambda>t. - ratingAverage t) (sort_key (\<lambda>t. - ratingAverage t)
      ts))"
    by (rule sorted_sort_key)
  then show ?thesis by (simp add: jsSort_byRating sorted_map)
qed

lemma jsSort_byRating_stable:
  "filter (\<lambda>t. ratingAverage t = r) (jsSort byRating ts) = filter (\<lambda>t.
      ratingAverage t = r) ts"
proof -
  have "filter (\<lambda>t. - ratingAverage t = - r) (sort_key (\<lambda>t. - ratingAverage t)
      ts) =
        filter (\<lambda>t. - ratingAverage t = - r) ts"
    by (rule sort_key_stable)
  then show ?thesis by (simp add: jsSort_byRating)
qed

lemma length_sortTutors: "length (sortTutors k h ts) = length ts"
  by (simp add: sortTutors_def length_jsSort)

lemma set_sortTutors: "set (sortTutors k h ts) = set ts"
  by (simp add: sortTutors_def set_jsSort)

lemma jsSlice_page:
  assumes "1 \<le> page" and "1 \<le> limit"
  shows "jsSlice xs ((page - 1) * limit) (page * limit) =
           take (nat limit) (drop (nat ((page - 1) * limit)) xs)"
proof -
  let ?s = "(page - 1) * limit"
  have s0: "0 \<le> ?s" using assms by simp
  have e: "page * limit = ?s + limit" by (simp add: algebra_simps)
  have e0: "0 \<le> page * limit" using assms by simp
  show ?thesis
  proof (cases "?s \<le> int (length xs)")
    case False
    then have "length xs \<le> nat ?s" by linarith
    then have "drop (nat ?s) xs = []" by simp
    moreover have "jsSlice xs ?s (page * limit) = []"
      using False s0 e0 assms unfolding jsSlice_def Let_def e by (auto simp: min_def)
    ultimately show ?thesis by simp
  next
    case True
    show ?thesis
    proof (cases "page * limit \<le> int (length xs)")
      case True
      then show ?thesis
        using \<open>?s \<le> int (length xs)\<close> s0 e0 unfolding jsSlice_def Let_def
        by (simp add: min_def e)
    next
      case False
      have len: "length (drop (nat ?s) xs) = length xs - nat ?s" by simp
      have "length xs - nat ?s \<le> nat limit" using False e s0 by linarith
      then have t1: "take (nat limit) (drop (nat ?s) xs) = drop (nat ?s) xs" by simp
      have "length xs - nat ?s \<le> nat (int (length xs) - ?s)" using s0 by linarith
      then have t2: "take (nat (int (length xs) - ?s)) (drop (nat ?s) xs) = drop (nat ?s) xs"
        by simp
      show ?thesis
        using False True s0 e0 unfolding jsSlice_def Let_def
        by (simp add: min_def t1 t2)
    qed
  qed
qed

lemma getTutors_Inr:
  assumes "getTutors rx near coll q = Inr resp"
  shows "validSearch q \<and>
         resp = \<lparr>res_tutors = jsSlice (sortTutors (orDefault (q_sortBy q) ''rating'')
                                  (q_latitude q \<noteq> None \<and> q_longitude q \<noteq> None)
                                  (findTutors rx near coll q))
                                ((orDefault (q_page q) 1 - 1) * orDefault (q_limit q) 10)
                                (orDefault (q_page q) 1 * orDefault (q_limit q) 10),
                 res_pagination =
                  \<lparr>currentPage = orDefault (q_page q) 1,
                   totalPages = \<lceil>real (length (findTutors rx near coll q)) /
                                   real_of_int (orDefault (q_limit q) 10)\<rceil>,
                   totalTutors = length (findTutors rx near coll q),
                   hasNext = (orDefault (q_page q) 1 * orDefault (q_limit q) 10
                                < int (length (findTutors rx near coll q))),
                   hasPrev = ((orDefault (q_page q) 1 - 1) * orDefault (q_limit q) 10 >
                       0)\<rparr>\<rparr>"
proof (cases "validSearch q")
  case False
  with assms show ?thesis by (simp add: getTutors_def)
next
  case True
  with assms have "resp = projr (getTutors rx near coll q)" by simp
  with True show ?thesis
    by (simp add: getTutors_def Let_def length_sortTutors)
qed

lemma validSearch_page: "validSearch q \<Longrightarrow> 1 \<le> orDefault (q_page q) 1"
  by (auto simp: validSearch_def whenGiven_def orDefault_def split: option.splits)

lemma validSearch_limit: "validSearch q \<Longrightarrow> 1 \<le> orDefault (q_limit q) 10"
  by (auto simp: validSearch_def whenGiven_def orDefault_def split: option.splits)

lemma getTutors_valid:
  assumes "validSearch q"
  shows "getTutors rx near coll q =
     Inr \<lparr>res_tutors = jsSlice (sortTutors (orDefault (q_sortBy q) ''rating'')
                                  (q_latitude q \<noteq> None \<and> q_longitude q \<noteq> None)
                                  (findTutors rx near coll q))
                                ((orDefault (q_page q) 1 - 1) * orDefault (q_limit q) 10)
                                (orDefault (q_page q) 1 * orDefault (q_limit q) 10),
                 res_pagination =
                  \<lparr>currentPage = orDefault (q_page q) 1,
                   totalPages = \<lceil>real (length (findTutors rx near coll q)) /
                                   real_of_int (orDefault (q_limit q) 10)\<rceil>,
                   totalTutors = length (findTutors rx near coll q),
                   hasNext = (orDefault (q_page q) 1 * orDefault (q_limit q) 10
                                < int (length (findTutors rx near coll q))),
                   hasPrev = ((orDefault (q_page q) 1 - 1) * orDefault (q_limit q) 10 >
                       0)\<rparr>\<rparr>"
  using assms by (simp add: getTutors_def Let_def length_sortTutors)

lemma getTutors_projr:
  "validSearch q \<Longrightarrow> getTutors rx near coll q = Inr (projr (getTutors rx near coll
      q))"
  by (simp add: getTutors_valid)

lemma set_jsSlice: "set (jsSlice xs a b) \<subseteq> set xs"
proof -
  have "set (take n (drop k xs)) \<subseteq> set xs" for n k
    using set_take_subset [of n "drop k xs"] set_drop_subset [of k xs] by blast
  then show ?thesis by (simp add: jsSlice_def Let_def)
qed

lemma sorted_wrt_take_drop:
  "sorted_wrt P xs \<Longrightarrow> sorted_wrt P (take n (drop k xs))"
  by (simp add: sorted_wrt_drop sorted_wrt_take)

lemma res_tutors_subset:
  assumes "getTutors rx near coll q = Inr resp"
  shows "set (res_tutors resp) \<subseteq> set (findTutors rx near coll q)"
proof -
  note r = getTutors_Inr [OF assms, THEN conjunct2]
  have "set (res_tutors resp) \<subseteq> set (sortTutors (orDefault (q_sortBy q) ''rating'')
                                  (q_latitude q \<noteq> None \<and> q_longitude q \<noteq> None)
                                  (findTutors rx near coll q))"
    by (subst r) (simp add: set_jsSlice)
  then show ?thesis by (simp add: set_sortTutors)
qed

lemma findTutors_origin:
  assumes "t \<in> set (findTutors rx near coll q)"
  shows "\<exists>c \<in> set coll. matchesQuery rx q c \<and> subjects t = subjects c \<and>
      coordinates t = coordinates c"
  using assms unfolding findTutors_def
  by (auto simp: addDistance_def Let_def split: option.splits)


lemma findTutors_plain:
  "q_latitude q = None \<Longrightarrow> findTutors rx near coll q = filter (matchesQuery rx q)
      coll"
  by (simp add: findTutors_def)

lemma mathMin_le:
  assumes "x \<in> set xs"
  shows "\<exists>m. mathMin xs = Some m \<and> m \<le> x"
proof (cases xs)
  case Nil
  with assms show ?thesis by simp
next
  case (Cons y ys)
  have "fold min ys y = Min (set (y # ys))" by (rule Min.set_eq_fold [symmetric])
  moreover have "Min (set (y # ys)) \<le> x" using assms Cons by (intro Min_le) simp_all
  ultimately show ?thesis using Cons by simp
qed

lemma jsSort_single: "jsSort cmp [x] = [x]"
  by (simp add: jsSort_def)

lemma sortTutors_single: "sortTutors k h [x] = [x]"
  by (simp add: sortTutors_def jsSort_single)

lemma resultIds_firstPage:
  assumes "validSearch q" and "q_page q = None" and "q_limit q = None"
    and "length (findTutors rx near coll q) \<le> 10"
  shows "resultIds (getTutors rx near coll q) =
           map tutor_id (sortTutors (orDefault (q_sortBy q) ''rating'')
                                  (q_latitude q \<noteq> None \<and> q_longitude q \<noteq> None)
                                  (findTutors rx near coll q))"
proof -
  have "jsSlice (sortTutors (orDefault (q_sortBy q) ''rating'')
                                  (q_latitude q \<noteq> None \<and> q_longitude q \<noteq> None)
                                  (findTutors rx near coll q)) ((1 - 1) * 10) (1 * 10) =
        take (nat 10) (drop (nat ((1 - 1) * 10)) (sortTutors (orDefault (q_sortBy q) ''rating'')
                                  (q_latitude q \<noteq> None \<and> q_longitude q \<noteq> None)
                                  (findTutors rx near coll q)))"
    by (rule jsSlice_page) simp_all
  then show ?thesis
    using assms(2-4)
    by (simp add: getTutors_valid [OF assms(1)] resultIds_def orDefault_def length_sortTutors)
qed

text \<open>
  The sample queries and tutors, and the great-circle distance at two pairs of points.
\<close>

lemma valid_emptyQuery: "validSearch emptyQuery"
  by (simp add: validSearch_def whenGiven_def emptyQuery_def)

lemma valid_pageQuery: "validSearch pageQuery"
  by (simp add: validSearch_def whenGiven_def pageQuery_def emptyQuery_def)

lemma valid_priceQuery: "validSearch priceQuery"
  by (simp add: validSearch_def whenGiven_def priceQuery_def emptyQuery_def)


lemma matches_sample: "matchesQuery rx emptyQuery (sampleTutor\<lparr>tutor_id := i\<rparr>)"
  by (simp add: matchesQuery_def whenTruthy_def whenGiven_def emptyQuery_def sampleTutor_def)

lemma matches_page: "matchesQuery rx pageQuery (sampleTutor\<lparr>tutor_id := i\<rparr>)"
  by (simp add: matchesQuery_def whenTruthy_def whenGiven_def pageQuery_def emptyQuery_def
        sampleTutor_def)

lemma matches_rated:
  "matchesQuery rx emptyQuery (sampleTutor\<lparr>tutor_id := i, ratingAverage := r\<rparr>)"
  by (simp add: matchesQuery_def whenTruthy_def whenGiven_def emptyQuery_def sampleTutor_def)


lemma matches_price: "matchesQuery literalRegexI priceQuery twoSubjectTutor"
  by code_simp

lemma find_emptyQuery:
  "findTutors rx near coll emptyQuery = filter (matchesQuery rx emptyQuery) coll"
proof -
  have "q_latitude emptyQuery = None" by (simp add: emptyQuery_def)
  then show ?thesis by (simp add: findTutors_def)
qed

lemma find_AB: "findTutors rx near [tutorA, tutorB] emptyQuery = [tutorA, tutorB]"
   "findTutors rx near [tutorB, tutorA] emptyQuery = [tutorB, tutorA]"
  by (simp_all add: find_emptyQuery tutorA_def tutorB_def matches_sample)

lemma sort_AB: "jsSort byRating [tutorA, tutorB] = [tutorA, tutorB]"
  "jsSort byRating [tutorB, tutorA] = [tutorB, tutorA]"
  by (simp_all add: jsSort_def byRating_def tutorA_def tutorB_def)



text \<open>
  C7.  A search that succeeds returns the slice of \<open>limit\<close> documents from index
  \<open>(page - 1) * limit\<close> of the documents the store returned, filtered, after they
      are sorted;
  with \<open>N\<close> the number of those documents, the current page is \<open>page\<close>,
      the number of pages is
  the ceiling of \<open>N / limit\<close>, there is a next page exactly when \<open>page * limit
      < N\<close>, and there
  is a previous page exactly when \<open>page > 1\<close>.
\<close>

theorem getTutors_pagination:
  assumes "getTutors rx near coll q = Inr resp"
  shows "res_tutors resp =
           take (nat (orDefault (q_limit q) 10))
             (drop (nat ((orDefault (q_page q) 1 - 1) * orDefault (q_limit q) 10))
                (sortTutors (orDefault (q_sortBy q) ''rating'')
                   (q_latitude q \<noteq> None \<and> q_longitude q \<noteq> None)
                   (findTutors rx near coll q))) \<and>
         currentPage (res_pagination resp) = orDefault (q_page q) 1 \<and>
         totalPages (res_pagination resp) =
           \<lceil>real (length (findTutors rx near coll q)) / real_of_int (orDefault (q_limit
               q) 10)\<rceil> \<and>
         totalTutors (res_pagination resp) = length (findTutors rx near coll q) \<and>
         hasNext (res_pagination resp) =
           (orDefault (q_page q) 1 * orDefault (q_limit q) 10
              < int (length (findTutors rx near coll q))) \<and>
         hasPrev (res_pagination resp) = (1 < orDefault (q_page q) 1)"
proof -
  note v = getTutors_Inr [OF assms, THEN conjunct1]
  note r = getTutors_Inr [OF assms, THEN conjunct2]
  have p: "1 \<le> orDefault (q_page q) 1" and l: "1 \<le> orDefault (q_limit q) 10"
    using v by (rule validSearch_page, rule validSearch_limit)
  have prev: "((orDefault (q_page q) 1 - 1) * orDefault (q_limit q) 10 > 0) = (1 < orDefault
      (q_page q) 1)"
    using p l by (simp add: zero_less_mult_iff)
  from r show ?thesis
    by (simp add: jsSlice_page [OF p l] prev)
qed

theorem getTutors_pagination_witness:
  "getTutors literalRegexI storeAdmitsAll [tutorA, tutorB] pageQuery =
     Inr (projr (getTutors literalRegexI storeAdmitsAll [tutorA, tutorB] pageQuery)) \<and>
   res_tutors (projr (getTutors literalRegexI storeAdmitsAll [tutorA, tutorB] pageQuery)) =
       [tutorB] \<and>
   currentPage (res_pagination (projr (getTutors literalRegexI storeAdmitsAll [tutorA, tutorB]
       pageQuery))) = 2 \<and>
   totalPages (res_pagination (projr (getTutors literalRegexI storeAdmitsAll [tutorA, tutorB]
       pageQuery))) = 2 \<and>
   totalTutors (res_pagination (projr (getTutors literalRegexI storeAdmitsAll [tutorA, tutorB]
       pageQuery))) = 2 \<and>
   \<not> hasNext (res_pagination (projr (getTutors literalRegexI storeAdmitsAll [tutorA,
       tutorB] pageQuery))) \<and>
   hasPrev (res_pagination (projr (getTutors literalRegexI storeAdmitsAll [tutorA, tutorB]
       pageQuery)))"
proof -
  let ?r = "getTutors literalRegexI storeAdmitsAll [tutorA, tutorB] pageQuery"
  have r: "?r = Inr (projr ?r)" using valid_pageQuery by (rule getTutors_projr)
  have q: "q_page pageQuery = Some 2" "q_limit pageQuery = Some 1" "q_sortBy pageQuery = None"
    "q_latitude pageQuery = None"
    by (simp_all add: pageQuery_def emptyQuery_def)
  have f: "findTutors literalRegexI storeAdmitsAll [tutorA, tutorB] pageQuery = [tutorA, tutorB]"
    by (simp add: findTutors_plain q tutorA_def tutorB_def matches_page)
  have s: "sortTutors ''rating'' False [tutorA, tutorB] = [tutorA, tutorB]"
    by (simp add: sortTutors_def sort_AB)
  from getTutors_pagination [OF r] show ?thesis
    using r by (simp add: q f s orDefault_def)
qed

text \<open>
  C6 (as amended).  A search without a sort key returns a slice of a list that is ordered by
  falling rating average and in which tutors of equal rating keep the order in which the
  store returned them; the returned page is ordered by falling rating too.  The sort has no
  second key: neither the distance nor the identity of a tutor decides between equal ratings.
\<close>

theorem default_sort_by_rating:
  assumes "q_sortBy q = None" and "getTutors rx near coll q = Inr resp"
  shows "\<exists>ts. res_tutors resp =
                take (nat (orDefault (q_limit q) 10))
                  (drop (nat ((orDefault (q_page q) 1 - 1) * orDefault (q_limit q) 10)) ts) \<and>
              sorted_wrt (\<lambda>a b. ratingAverage b \<le> ratingAverage a) ts \<and>
              (\<forall>r. filter (\<lambda>t. ratingAverage t = r) ts =
                   filter (\<lambda>t. ratingAverage t = r) (findTutors rx near coll q)) \<and>
              sorted_wrt (\<lambda>a b. ratingAverage b \<le> ratingAverage a) (res_tutors resp)"
proof -
  let ?ts = "jsSort byRating (findTutors rx near coll q)"
  note v = getTutors_Inr [OF assms(2), THEN conjunct1]
  note r = getTutors_Inr [OF assms(2), THEN conjunct2]
  have s: "sortTutors (orDefault (q_sortBy q) ''rating'') h xs = jsSort byRating xs" for h xs
    using assms(1) by (simp add: orDefault_def sortTutors_def)
  have page: "res_tutors resp =
                take (nat (orDefault (q_limit q) 10))
                  (drop (nat ((orDefault (q_page q) 1 - 1) * orDefault (q_limit q) 10)) ?ts)"
    by (subst r) (simp add: s jsSlice_page [OF validSearch_page [OF v] validSearch_limit [OF v]])
  have sorted: "sorted_wrt (\<lambda>a b. ratingAverage b \<le> ratingAverage a) ?ts"
    by (rule jsSort_byRating_sorted)
  have "sorted_wrt (\<lambda>a b. ratingAverage b \<le> ratingAverage a) (res_tutors resp)"
    unfolding page using sorted by (rule sorted_wrt_take_drop)
  with page sorted show ?thesis
    by (intro exI [of _ ?ts] conjI allI jsSort_byRating_stable)
qed

theorem default_sort_by_rating_witness:
  "q_sortBy emptyQuery = None \<and>
   getTutors literalRegexI storeAdmitsAll [tutorLow, tutorHigh] emptyQuery =
     Inr (projr (getTutors literalRegexI storeAdmitsAll [tutorLow, tutorHigh] emptyQuery)) \<and>
   sorted_wrt (\<lambda>a b. ratingAverage b \<le> ratingAverage a)
     (res_tutors (projr (getTutors literalRegexI storeAdmitsAll [tutorLow, tutorHigh]
         emptyQuery))) \<and>
   resultIds (getTutors literalRegexI storeAdmitsAll [tutorLow, tutorHigh] emptyQuery) = [''H'',
       ''L'']"
proof -
  let ?r = "getTutors literalRegexI storeAdmitsAll [tutorLow, tutorHigh] emptyQuery"
  have q: "q_sortBy emptyQuery = None" "q_page emptyQuery = None" "q_limit emptyQuery = None"
    by (simp_all add: emptyQuery_def)
  have r: "?r = Inr (projr ?r)" using valid_emptyQuery by (rule getTutors_projr)
  have f: "findTutors literalRegexI storeAdmitsAll [tutorLow, tutorHigh] emptyQuery = [tutorLow,
      tutorHigh]"
    by (simp add: find_emptyQuery tutorLow_def tutorHigh_def matches_rated)
  have s: "jsSort byRating [tutorLow, tutorHigh] = [tutorHigh, tutorLow]"
    by (simp add: jsSort_def byRating_def tutorLow_def tutorHigh_def)
  have ids: "resultIds ?r = [''H'', ''L'']"
    by (subst resultIds_firstPage [OF valid_emptyQuery q(2,3)])
       (simp_all add: f q orDefault_def sortTutors_def s, simp_all add: tutorLow_def
           tutorHigh_def)
  from default_sort_by_rating [OF q(1) r] have
    "sorted_wrt (\<lambda>a b. ratingAverage b \<le> ratingAverage a) (res_tutors (projr ?r))"
    by blast
  with q(1) r ids show ?thesis by simp
qed

text \<open>
  Two tutors of equal rating and equal (absent) distance come back in the order of the
  store, whichever it is: the order is not determined by rating, distance and identity.
\<close>

theorem default_sort_keeps_store_order_counterexample:
  "ratingAverage tutorA = ratingAverage tutorB \<and> distance tutorA = distance tutorB \<and>
   resultIds (getTutors literalRegexI storeAdmitsAll [tutorA, tutorB] emptyQuery) = [''A'',
       ''B''] \<and>
   resultIds (getTutors literalRegexI storeAdmitsAll [tutorB, tutorA] emptyQuery) = [''B'',
       ''A'']"
proof -
  have s: "q_sortBy emptyQuery = None" "q_page emptyQuery = None" "q_limit emptyQuery = None"
    by (simp_all add: emptyQuery_def)
  have "resultIds (getTutors literalRegexI storeAdmitsAll [tutorA, tutorB] emptyQuery) = [''A'',
      ''B'']"
    by (subst resultIds_firstPage [OF valid_emptyQuery s(2,3)])
       (simp_all add: find_AB s orDefault_def sortTutors_def sort_AB, simp_all add: tutorA_def
           tutorB_def)
  moreover have "resultIds (getTutors literalRegexI storeAdmitsAll [tutorB, tutorA] emptyQuery)
      = [''B'', ''A'']"
    by (subst resultIds_firstPage [OF valid_emptyQuery s(2,3)])
       (simp_all add: find_AB s orDefault_def sortTutors_def sort_AB, simp_all add: tutorA_def
           tutorB_def)
  ultimately show ?thesis by (simp add: tutorA_def tutorB_def)
qed

text \<open>
  C8 (as amended).  When a search gives a maximum price, every tutor in the results has some
  subject offering priced at most that maximum, whether or not that offering matches the
  subject, class and board filters: the minimum price over all the tutor's offerings is at
  most the maximum price.
\<close>

theorem maxPrice_filter:
  assumes "getTutors rx near coll q = Inr resp" and "q_maxPrice q = Some p"
    and "t \<in> set (res_tutors resp)"
  shows "\<exists>m. mathMin (map pricePerHour (subjects t)) = Some m \<and> m \<le> p"
proof -
  from assms(1,3) have "t \<in> set (findTutors rx near coll q)"
    using res_tutors_subset by blast
  then obtain c where c: "matchesQuery rx q c" "subjects t = subjects c"
    using findTutors_origin by blast
  from c(1) assms(2) have "list_ex (\<lambda>s. pricePerHour s \<le> p) (subjects c)"
    by (simp add: matchesQuery_def whenGiven_def)
  then obtain s where s: "s \<in> set (subjects t)" "pricePerHour s \<le> p"
    using c(2) by (auto simp: list_ex_iff)
  then have "pricePerHour s \<in> set (map pricePerHour (subjects t))" by simp
  from mathMin_le [OF this] s(2) show ?thesis by fastforce
qed

theorem maxPrice_filter_witness:
  "getTutors literalRegexI storeAdmitsAll [twoSubjectTutor] priceQuery =
     Inr (projr (getTutors literalRegexI storeAdmitsAll [twoSubjectTutor] priceQuery)) \<and>
   q_maxPrice priceQuery = Some 500 \<and>
   twoSubjectTutor \<in> set (res_tutors (projr (getTutors literalRegexI storeAdmitsAll
       [twoSubjectTutor] priceQuery))) \<and>
   (\<exists>m. mathMin (map pricePerHour (subjects twoSubjectTutor)) = Some m \<and> m \<le>
       500)"
proof -
  let ?r = "getTutors literalRegexI storeAdmitsAll [twoSubjectTutor] priceQuery"
  have r: "?r = Inr (projr ?r)" using valid_priceQuery by (rule getTutors_projr)
  have q: "q_maxPrice priceQuery = Some 500" "q_page priceQuery = None" "q_limit priceQuery =
      None"
    "q_latitude priceQuery = None"
    by (simp_all add: priceQuery_def emptyQuery_def)
  have f: "findTutors literalRegexI storeAdmitsAll [twoSubjectTutor] priceQuery =
      [twoSubjectTutor]"
    by (simp add: findTutors_plain q matches_price)
  have "projr ?r = projr (Inr \<lparr>res_tutors = jsSlice [twoSubjectTutor] ((1 - 1) * 10) (1 *
      10),
      res_pagination = \<lparr>currentPage = 1, totalPages = \<lceil>real (length
          [twoSubjectTutor]) / real_of_int 10\<rceil>,
         totalTutors = length [twoSubjectTutor], hasNext = (1 * 10 < int (length
             [twoSubjectTutor])),
         hasPrev = ((1 - 1) * 10 > (0::int))\<rparr>\<rparr>)"
    by (subst getTutors_valid [OF valid_priceQuery]) (simp add: q f orDefault_def
        sortTutors_single)
  then have m: "twoSubjectTutor \<in> set (res_tutors (projr ?r))"
    by (simp add: jsSlice_def)
  from maxPrice_filter [OF r q(1) m] r q(1) m show ?thesis by simp
qed

text \<open>
  A tutor offering Math at 1000 and Physics at 300 is returned for the subject Math with a
  maximum price of 500, although the cheapest offering matching the subject costs 1000.
\<close>

theorem maxPrice_any_offering_counterexample:
  "q_subject priceQuery = Some ''Math'' \<and> q_maxPrice priceQuery = Some 500 \<and>
   resultIds (getTutors literalRegexI storeAdmitsAll [twoSubjectTutor] priceQuery) =
       [sampleTutorId] \<and>
   specMinMatchingPrice literalRegexI priceQuery twoSubjectTutor = Some 1000"
proof -
  have q: "q_page priceQuery = None" "q_limit priceQuery = None" "q_latitude priceQuery = None"
    "q_sortBy priceQuery = None" "q_subject priceQuery = Some ''Math''" "q_maxPrice priceQuery =
        Some 500"
    by (simp_all add: priceQuery_def emptyQuery_def)
  have f: "findTutors literalRegexI storeAdmitsAll [twoSubjectTutor] priceQuery =
      [twoSubjectTutor]"
    by (simp add: findTutors_plain q matches_price)
  have ids: "resultIds (getTutors literalRegexI storeAdmitsAll [twoSubjectTutor] priceQuery) =
      [sampleTutorId]"
    by (subst resultIds_firstPage [OF valid_priceQuery q(1,2)])
       (simp_all add: f sortTutors_single, simp add: twoSubjectTutor_def sampleTutor_def)
  have "specMinMatchingPrice literalRegexI priceQuery twoSubjectTutor = Some 1000"
    by code_simp
  with ids q show ?thesis by simp
qed




end
